theory Spec2Isabelle
  imports Main "HOL-Library.Word"
begin

section \<open>The curl-backed stream of libgit2 (src/curl\_stream.c)\<close>

text \<open>
  The file implements the \<open>git_stream\<close> operations on top of a connect-only libcurl
  handle. Everything the C code does to the outside goes through a handful of
  primitives (\<open>curl_easy_perform\<close>, \<open>curl_easy_getinfo\<close>, \<open>select\<close>,
  \<open>curl_easy_send\<close>, \<open>curl_easy_recv\<close>, \<open>curl_easy_cleanup\<close>, \<open>curl_easy_init\<close>,
  \<open>curl_easy_setopt\<close>, \<open>git__calloc\<close>, \<open>git__free\<close>, \<open>giterr_set\<close>). The model
  threads a \<open>world\<close> through every operation: it holds the answers the outside is
  going to give (in call order), the log of the calls made so far and the last error
  reported through \<open>giterr_set\<close>. An operation whose next call finds no matching answer
  yields \<open>None\<close>: the call has not returned within the given answers.
\<close>

subsection \<open>C types\<close>

text \<open>LP64: \<open>size_t\<close> and \<open>long\<close> have 64 bits, \<open>int\<close> and \<open>curl_socket_t\<close> 32.\<close>

type_synonym size_t = "64 word"
type_synonym c_long = "64 word"
type_synonym curl_socket_t = "32 word"

text \<open>A \<open>CURL *\<close>: \<open>None\<close> is the null pointer.\<close>

type_synonym CURL_ptr = "nat option"

text \<open>
  The result codes of libcurl that the file tells apart; every other code is
  \<open>CURLE_OTHER\<close> with its number.
\<close>

datatype CURLcode =
    CURLE_OK
  | CURLE_AGAIN
  | CURLE_PEER_FAILED_VERIFICATION
  | CURLE_OTHER nat

datatype git_error_t = GITERR_NET | GITERR_OS

datatype git_cert_t = GIT_CERT_NONE | GIT_CERT_X509

record git_cert_x509 =
  cert_type :: git_cert_t
  cert_data :: "nat option"
  cert_len :: size_t

text \<open>
  \<open>curl_stream\<close>: of the embedded \<open>git_stream parent\<close> only the \<open>encrypted\<close> flag is
  state (the version tag and the operation table are constants set by the factory).
\<close>

record curl_stream =
  encrypted :: int
  handle :: CURL_ptr
  socket :: curl_socket_t
  curl_error :: string
  cert_info :: git_cert_x509

text \<open>
  Modelled from the spec: the error code \<open>GIT_ECERTIFICATE\<close> is declared in
  git2/errors.h, which is not part of the source file. The spec describes it as a dedicated
  certificate-error result, distinct from success (0) and from the generic error (-1) that
  \<open>seterr_curl\<close> returns; -17 is libgit2's value.
\<close>

definition GIT_ECERTIFICATE :: int where
  "GIT_ECERTIFICATE = -17"

subsection \<open>The outside world\<close>

datatype curlopt =
    CURLOPT_URL string
  | CURLOPT_ERRORBUFFER
  | CURLOPT_PORT "32 word"
  | CURLOPT_CONNECT_ONLY int
  | CURLOPT_SSL_VERIFYPEER int
  | CURLOPT_CERTINFO int

text \<open>
  The calls made to the outside, with their arguments. \<open>CallSelect\<close> carries
  \<open>nfds\<close> and the members of the read, write and error descriptor sets;
  \<open>CallSend\<close> the offset into the caller's buffer and the byte count offered;
  \<open>CallRecv\<close> the capacity of the caller's buffer.
\<close>

datatype call =
    CallCalloc
  | CallEasyInit
  | CallSetopt CURL_ptr curlopt
  | CallPerform CURL_ptr
  | CallGetinfoLastSocket CURL_ptr
  | CallSelect "32 word" "curl_socket_t list" "curl_socket_t list" "curl_socket_t list"
  | CallSend CURL_ptr size_t size_t
  | CallRecv CURL_ptr size_t
  | CallCleanup CURL_ptr
  | CallFree

text \<open>
  The answers of the outside. A libcurl answer carries the result code and, when libcurl
  wrote one, the text it left in the error buffer registered with
  \<open>CURLOPT_ERRORBUFFER\<close> (the stream's \<open>curl_error\<close>). \<open>RCalloc True\<close> is a
  successful allocation.
\<close>

datatype response =
    RCalloc bool
  | REasyInit CURL_ptr
  | RPerform CURLcode "string option"
  | RGetinfo CURLcode "string option" c_long
  | RSelect int
  | RSend CURLcode "string option" size_t
  | RRecv CURLcode "string option" size_t

record world =
  giterr :: "(git_error_t \<times> string) option"
  calls :: "call list"
  pending :: "response list"

definition giterr_set :: "git_error_t \<Rightarrow> string \<Rightarrow> world \<Rightarrow> world" where
  "giterr_set cls msg w = w\<lparr>giterr := Some (cls, msg)\<rparr>"

definition called :: "call \<Rightarrow> response list \<Rightarrow> world \<Rightarrow> world" where
  "called c rest w = w\<lparr>calls := calls w @ [c], pending := rest\<rparr>"

definition errbuf_written :: "string option \<Rightarrow> curl_stream \<Rightarrow> curl_stream" where
  "errbuf_written eb s = (case eb of None \<Rightarrow> s | Some m \<Rightarrow> s\<lparr>curl_error := m\<rparr>)"

definition curl_easy_perform ::
  "CURL_ptr \<Rightarrow> world \<Rightarrow> ((CURLcode \<times> string option) \<times> world) option" where
  "curl_easy_perform h w =
     (case pending w of
        RPerform res eb # rest \<Rightarrow> Some ((res, eb), called (CallPerform h) rest w)
      | _ \<Rightarrow> None)"

definition curl_easy_getinfo_lastsocket ::
  "CURL_ptr \<Rightarrow> world \<Rightarrow> ((CURLcode \<times> string option \<times> c_long) \<times> world) option" where
  "curl_easy_getinfo_lastsocket h w =
     (case pending w of
        RGetinfo res eb sockextr # rest \<Rightarrow>
          Some ((res, eb, sockextr), called (CallGetinfoLastSocket h) rest w)
      | _ \<Rightarrow> None)"

definition select_fds ::
  "32 word \<Rightarrow> curl_socket_t list \<Rightarrow> curl_socket_t list \<Rightarrow> curl_socket_t list \<Rightarrow> world
     \<Rightarrow> (int \<times> world) option" where
  "select_fds nfds infd outfd errfd w =
     (case pending w of
        RSelect ret # rest \<Rightarrow> Some (ret, called (CallSelect nfds infd outfd errfd) rest w)
      | _ \<Rightarrow> None)"

definition curl_easy_send ::
  "CURL_ptr \<Rightarrow> size_t \<Rightarrow> size_t \<Rightarrow> world
     \<Rightarrow> ((CURLcode \<times> string option \<times> size_t) \<times> world) option" where
  "curl_easy_send h off n w =
     (case pending w of
        RSend res eb sent # rest \<Rightarrow> Some ((res, eb, sent), called (CallSend h off n) rest w)
      | _ \<Rightarrow> None)"

definition curl_easy_recv ::
  "CURL_ptr \<Rightarrow> size_t \<Rightarrow> world \<Rightarrow> ((CURLcode \<times> string option \<times> size_t) \<times> world) option" where
  "curl_easy_recv h n w =
     (case pending w of
        RRecv res eb got # rest \<Rightarrow> Some ((res, eb, got), called (CallRecv h n) rest w)
      | _ \<Rightarrow> None)"

definition curl_easy_cleanup :: "CURL_ptr \<Rightarrow> world \<Rightarrow> world" where
  "curl_easy_cleanup h w = w\<lparr>calls := calls w @ [CallCleanup h]\<rparr>"

definition curl_easy_setopt :: "CURL_ptr \<Rightarrow> curlopt \<Rightarrow> world \<Rightarrow> world" where
  "curl_easy_setopt h opt w = w\<lparr>calls := calls w @ [CallSetopt h opt]\<rparr>"

definition git__free :: "world \<Rightarrow> world" where
  "git__free w = w\<lparr>calls := calls w @ [CallFree]\<rparr>"

text \<open>\<open>git__calloc(1, sizeof(curl_stream))\<close>: a zeroed stream, or the null pointer.\<close>

definition zeroed_stream :: curl_stream where
  "zeroed_stream =
     \<lparr>encrypted = 0, handle = None, socket = 0, curl_error = [],
      cert_info = \<lparr>cert_type = GIT_CERT_NONE, cert_data = None, cert_len = 0\<rparr>\<rparr>"

definition git__calloc :: "world \<Rightarrow> (curl_stream option \<times> world) option" where
  "git__calloc w =
     (case pending w of
        RCalloc ok # rest \<Rightarrow>
          Some (if ok then Some zeroed_stream else None, called CallCalloc rest w)
      | _ \<Rightarrow> None)"

definition curl_easy_init :: "world \<Rightarrow> (CURL_ptr \<times> world) option" where
  "curl_easy_init w =
     (case pending w of
        REasyInit h # rest \<Rightarrow> Some (h, called CallEasyInit rest w)
      | _ \<Rightarrow> None)"

subsection \<open>The stream operations\<close>

text \<open>\<open>seterr_curl\<close>: report the text of the error buffer as a network error, return -1.\<close>

definition seterr_curl :: "curl_stream \<Rightarrow> world \<Rightarrow> int \<times> world" where
  "seterr_curl s w =
     (-1, giterr_set GITERR_NET (''curl error: '' @ curl_error s @ [CHR 0x0A]) w)"

definition curls_connect ::
  "curl_stream \<Rightarrow> world \<Rightarrow> ((int \<times> curl_stream) \<times> world) option" where
  "curls_connect s w =
     (case curl_easy_perform (handle s) w of
        None \<Rightarrow> None
      | Some ((res, eb), w1) \<Rightarrow>
          let s1 = errbuf_written eb s in
          if res \<noteq> CURLE_OK \<and> res \<noteq> CURLE_PEER_FAILED_VERIFICATION then
            (let (r, w2) = seterr_curl s1 w1 in Some ((r, s1), w2))
          else
            let failed_cert = (if res = CURLE_PEER_FAILED_VERIFICATION then 1 else 0 :: int) in
            (case curl_easy_getinfo_lastsocket (handle s1) w1 of
               None \<Rightarrow> None
             | Some ((res2, eb2, sockextr), w2) \<Rightarrow>
                 let s2 = errbuf_written eb2 s1 in
                 if res2 \<noteq> CURLE_OK then
                   (let (r, w3) = seterr_curl s2 w2 in Some ((r, s2), w3))
                 else
                   let s3 = s2\<lparr>socket := ucast sockextr\<rparr> in
                   if encrypted s3 \<noteq> 0 \<and> failed_cert \<noteq> 0 then Some ((GIT_ECERTIFICATE, s3), w2)
                   else Some ((0, s3), w2)))"

text \<open>
  \<open>curls_certificate\<close>: the result is the return code, the record \<open>*out\<close> points to
  (the stream's own \<open>cert_info\<close>) and the stream.
\<close>

definition curls_certificate :: "curl_stream \<Rightarrow> int \<times> git_cert_x509 \<times> curl_stream" where
  "curls_certificate s =
     (let s1 = s\<lparr>cert_info := (cert_info s)\<lparr>cert_type := GIT_CERT_X509\<rparr>\<rparr>;
          s2 = s1\<lparr>cert_info := (cert_info s1)\<lparr>cert_data := None\<rparr>\<rparr>;
          s3 = s2\<lparr>cert_info := (cert_info s2)\<lparr>cert_len := 0\<rparr>\<rparr>
      in (0, cert_info s3, s3))"

text \<open>
  \<open>wait_for\<close>: \<open>select\<close> on \<open>fd + 1\<close> descriptors, with \<open>fd\<close> in the error set and in
  the read or the write set; no timeout.
\<close>

definition wait_for :: "curl_socket_t \<Rightarrow> bool \<Rightarrow> world \<Rightarrow> (int \<times> world) option" where
  "wait_for fd reading w =
     (let errfd = [fd];
          infd = (if reading then [fd] else []);
          outfd = (if reading then [] else [fd])
      in case select_fds (fd + 1) infd outfd errfd w of
           None \<Rightarrow> None
         | Some (ret, w1) \<Rightarrow>
             if ret < 0 then Some (-1, giterr_set GITERR_OS ''error in select'' w1)
             else Some (0, w1))"

text \<open>
  \<open>curls_write\<close>. The \<open>do ... while\<close> loop is \<open>curls_write_loop\<close>: \<open>Inl error\<close> is the
  \<open>return error\<close> inside the body, \<open>Inr res\<close> the result code the loop was left with.
  Every round consumes the answer to a \<open>select\<close>, so the recursion is bounded by the
  answers still pending.
\<close>

function curls_write_loop ::
  "curl_stream \<Rightarrow> size_t \<Rightarrow> size_t \<Rightarrow> world
     \<Rightarrow> (((int + CURLcode) \<times> curl_stream) \<times> world) option" where
  "curls_write_loop s len off w =
     (case wait_for (socket s) False w of
        None \<Rightarrow> None
      | Some (error, w1) \<Rightarrow>
          if error < 0 then Some ((Inl error, s), w1)
          else
            (case curl_easy_send (handle s) off (len - off) w1 of
               None \<Rightarrow> None
             | Some ((res, eb, sent), w2) \<Rightarrow>
                 let s1 = errbuf_written eb s;
                     off1 = (if res = CURLE_OK then off + sent else off)
                 in if (res = CURLE_OK \<or> res = CURLE_AGAIN) \<and> off1 < len
                    then curls_write_loop s1 len off1 w2
                    else Some ((Inr res, s1), w2)))"
  by pat_completeness auto
termination
  apply (relation "measure (\<lambda>(s, len, off, w). length (pending w))")
   apply simp
  apply (auto simp: wait_for_def select_fds_def curl_easy_send_def called_def giterr_set_def
      split: list.splits response.splits if_splits)
  done

text \<open>
  \<open>data\<close> is the caller's buffer; the transport is handed the offset \<open>off\<close> into it.
  \<open>return len\<close> converts the \<open>size_t\<close> to the \<open>ssize_t\<close> result.
\<close>

definition curls_write ::
  "curl_stream \<Rightarrow> 8 word list \<Rightarrow> size_t \<Rightarrow> int \<Rightarrow> world
     \<Rightarrow> ((int \<times> curl_stream) \<times> world) option" where
  "curls_write s data len flags w =
     (case curls_write_loop s len 0 w of
        None \<Rightarrow> None
      | Some ((Inl error, s1), w1) \<Rightarrow> Some ((error, s1), w1)
      | Some ((Inr res, s1), w1) \<Rightarrow>
          if res \<noteq> CURLE_OK then
            (let (r, w2) = seterr_curl s1 w1 in Some ((r, s1), w2))
          else Some ((sint len, s1), w1))"

text \<open>
  \<open>curls_read\<close>: the loop is left with the result code and the byte count \<open>read\<close> of the
  last \<open>curl_easy_recv\<close>.
\<close>

function curls_read_loop ::
  "curl_stream \<Rightarrow> size_t \<Rightarrow> world
     \<Rightarrow> (((int + CURLcode \<times> size_t) \<times> curl_stream) \<times> world) option" where
  "curls_read_loop s len w =
     (case wait_for (socket s) True w of
        None \<Rightarrow> None
      | Some (error, w1) \<Rightarrow>
          if error < 0 then Some ((Inl error, s), w1)
          else
            (case curl_easy_recv (handle s) len w1 of
               None \<Rightarrow> None
             | Some ((res, eb, got), w2) \<Rightarrow>
                 let s1 = errbuf_written eb s in
                 if res = CURLE_AGAIN then curls_read_loop s1 len w2
                 else Some ((Inr (res, got), s1), w2)))"
  by pat_completeness auto
termination
  apply (relation "measure (\<lambda>(s, len, w). length (pending w))")
   apply simp
  apply (auto simp: wait_for_def select_fds_def curl_easy_recv_def called_def giterr_set_def
      split: list.splits response.splits if_splits)
  done

definition curls_read ::
  "curl_stream \<Rightarrow> size_t \<Rightarrow> world \<Rightarrow> ((int \<times> curl_stream) \<times> world) option" where
  "curls_read s len w =
     (case curls_read_loop s len w of
        None \<Rightarrow> None
      | Some ((Inl error, s1), w1) \<Rightarrow> Some ((error, s1), w1)
      | Some ((Inr (res, got), s1), w1) \<Rightarrow>
          if res \<noteq> CURLE_OK then
            (let (r, w2) = seterr_curl s1 w1 in Some ((r, s1), w2))
          else Some ((sint got, s1), w1))"

definition curls_close :: "curl_stream \<Rightarrow> world \<Rightarrow> (int \<times> curl_stream) \<times> world" where
  "curls_close s w =
     (if handle s = None then ((0, s), w)
      else
        let w1 = curl_easy_cleanup (handle s) w;
            s1 = s\<lparr>handle := None\<rparr>;
            s2 = s1\<lparr>socket := 0\<rparr>
        in ((0, s2), w1))"

text \<open>\<open>curls_free\<close> ends the stream's life: only the world is left.\<close>

definition curls_free :: "curl_stream \<Rightarrow> world \<Rightarrow> world" where
  "curls_free s w = (case curls_close s w of ((r, s1), w1) \<Rightarrow> git__free w1)"

text \<open>
  \<open>git_curl_stream_new\<close>. The port parser \<open>git__strtol32\<close> lives elsewhere in the
  library; it is a parameter here, giving for a string its return code and the value it
  stores in \<open>iport\<close>. The result is the return code and the stream stored in \<open>*out\<close>.
  \<open>GITERR_CHECK_ALLOC\<close> returns -1 on a null pointer.
\<close>

definition git_curl_stream_new ::
  "(string \<Rightarrow> int \<times> 32 word) \<Rightarrow> string \<Rightarrow> string \<Rightarrow> int \<Rightarrow> world
     \<Rightarrow> ((int \<times> curl_stream option) \<times> world) option" where
  "git_curl_stream_new git__strtol32 host port encrypted_flag w =
     (case git__calloc w of
        None \<Rightarrow> None
      | Some (None, w1) \<Rightarrow> Some ((-1, None), w1)
      | Some (Some st, w1) \<Rightarrow>
          (case curl_easy_init w1 of
             None \<Rightarrow> None
           | Some (h, w2) \<Rightarrow>
               if h = None then
                 Some ((-1, None), giterr_set GITERR_NET ''failed to create curl handle'' w2)
               else
                 let (error, iport) = git__strtol32 port in
                 if error < 0 then Some ((error, None), w2)
                 else
                   let url = (if encrypted_flag \<noteq> 0 then ''https://'' @ host else host);
                       w3 = curl_easy_setopt h (CURLOPT_URL url) w2;
                       w4 = curl_easy_setopt h CURLOPT_ERRORBUFFER w3;
                       w5 = curl_easy_setopt h (CURLOPT_PORT iport) w4;
                       w6 = curl_easy_setopt h (CURLOPT_CONNECT_ONLY 1) w5;
                       w7 = curl_easy_setopt h (CURLOPT_SSL_VERIFYPEER 1) w6;
                       w8 = curl_easy_setopt h (CURLOPT_CERTINFO 1) w7;
                       st1 = st\<lparr>encrypted := encrypted_flag\<rparr>;
                       st2 = st1\<lparr>handle := h\<rparr>
                   in Some ((0, Some st2), w8)))"

subsection \<open>Transport behaviours\<close>

text \<open>
  The answers of a transport that reports "would block" to \<open>curl_easy_recv\<close> a number
  of times: every round is a \<open>select\<close> (with its return value) followed by a
  \<open>CURLE_AGAIN\<close>.
\<close>

fun read_again_rounds :: "(int \<times> string option \<times> size_t) list \<Rightarrow> response list" where
  "read_again_rounds [] = []"
| "read_again_rounds ((ret, eb, n) # rs) =
     RSelect ret # RRecv CURLE_AGAIN eb n # read_again_rounds rs"

text \<open>
  The answers of a transport that takes the bytes of a write in chunks: in every round
  the \<open>select\<close> returns and \<open>curl_easy_send\<close> either accepts \<open>n\<close> bytes
  (\<open>Some n\<close>) or reports "would block" (\<open>None\<close>). \<open>accepted\<close> is the number of
  bytes taken over all rounds.
\<close>

fun write_rounds :: "(int \<times> string option \<times> size_t option) list \<Rightarrow> response list" where
  "write_rounds [] = []"
| "write_rounds ((ret, eb, None) # rs) = RSelect ret # RSend CURLE_AGAIN eb 0 # write_rounds rs"
| "write_rounds ((ret, eb, Some n) # rs) = RSelect ret # RSend CURLE_OK eb n # write_rounds rs"

fun accepted :: "(int \<times> string option \<times> size_t option) list \<Rightarrow> nat" where
  "accepted [] = 0"
| "accepted ((ret, eb, None) # rs) = accepted rs"
| "accepted ((ret, eb, Some n) # rs) = unat n + accepted rs"

text \<open>
  The calls a write of \<open>len\<close> bytes has to make against such a transport, starting at
  offset \<open>off\<close>: in every round a \<open>select\<close> for writability and a
  \<open>curl_easy_send\<close> that offers the bytes from the current offset to the end; an
  accepted chunk moves the offset on.
\<close>

fun write_calls ::
  "curl_stream \<Rightarrow> size_t \<Rightarrow> size_t \<Rightarrow> (int \<times> string option \<times> size_t option) list \<Rightarrow> call list" where
  "write_calls s len off [] = []"
| "write_calls s len off ((ret, eb, c) # rs) =
     CallSelect (socket s + 1) [] [socket s] [socket s] #
     CallSend (handle s) off (len - off) #
     write_calls s len (case c of None \<Rightarrow> off | Some n \<Rightarrow> off + n) rs"

text \<open>
  Modelled from the spec: \<open>git__strtol32\<close> is defined in another file of the library,
  which is not among the sources. The spec says of the port that it is "textual, parsed as
  base-10 integer; parse failure is a propagated error". \<open>strtol32_base10\<close> accepts a
  non-empty string of decimal digits whose value fits a signed 32-bit integer and answers
  -1 for every other string. It only serves as a concrete parser in the examples; the
  theorems about the factory hold for every parser.
\<close>

fun digits_value :: "string \<Rightarrow> nat \<Rightarrow> nat option" where
  "digits_value [] acc = Some acc"
| "digits_value (c # cs) acc =
     (if 48 \<le> (of_char c :: nat) \<and> (of_char c :: nat) \<le> 57
      then digits_value cs (10 * acc + (of_char c - 48))
      else None)"

definition strtol32_base10 :: "string \<Rightarrow> int \<times> 32 word" where
  "strtol32_base10 p =
     (case (if p = [] then None else digits_value p 0) of
        None \<Rightarrow> (-1, 0)
      | Some v \<Rightarrow> if v < 2 ^ 31 then (0, of_nat v) else (-1, 0))"

subsection \<open>Example values\<close>

text \<open>
  An encrypted stream with handle 1 and descriptor 5, the same stream after
  \<open>curls_close\<close>, and a fresh world in which the outside will give the answers
  \<open>rs\<close>.
\<close>

definition connected_stream :: curl_stream where
  "connected_stream =
     \<lparr>encrypted = 1, handle = Some 1, socket = 5, curl_error = [],
      cert_info = \<lparr>cert_type = GIT_CERT_NONE, cert_data = None, cert_len = 0\<rparr>\<rparr>"

definition closed_stream :: curl_stream where
  "closed_stream = connected_stream\<lparr>handle := None, socket := 0\<rparr>"

definition world_with :: "response list \<Rightarrow> world" where
  "world_with rs = \<lparr>giterr = None, calls = [], pending = rs\<rparr>"

declare curls_write_loop.simps [simp del]
declare curls_read_loop.simps [simp del]

section \<open>Properties\<close>

subsection \<open>Auxiliary facts\<close>

lemma errbuf_written_fields [simp]:
  "handle (errbuf_written eb s) = handle s"
  "socket (errbuf_written eb s) = socket s"
  "encrypted (errbuf_written eb s) = encrypted s"
  "cert_info (errbuf_written eb s) = cert_info s"
  by (simp_all add: errbuf_written_def split: option.splits)

lemma errbuf_written_None [simp]: "errbuf_written None s = s"
  by (simp add: errbuf_written_def)

lemma wait_for_answer:
  "pending w = RSelect ret # rest \<Longrightarrow>
   wait_for fd reading w =
     Some (if ret < 0 then -1 else 0,
       w\<lparr>giterr := (if ret < 0 then Some (GITERR_OS, ''error in select'') else giterr w),
         calls := calls w @ [CallSelect (fd + 1) (if reading then [fd] else [])
                   (if reading then [] else [fd]) [fd]],
         pending := rest\<rparr>)"
  by (simp add: wait_for_def select_fds_def called_def giterr_set_def Let_def)

lemma wait_for_SomeD:
  "wait_for fd reading w = Some (e, w1) \<Longrightarrow>
     (e = -1 \<and> giterr w1 = Some (GITERR_OS, ''error in select'')) \<or>
     (e = 0 \<and> giterr w1 = giterr w)"
  by (auto simp: wait_for_def select_fds_def called_def giterr_set_def Let_def
      split: list.splits response.splits if_splits)

lemma curl_easy_send_giterr:
  "curl_easy_send h off n w = Some (x, w') \<Longrightarrow> giterr w' = giterr w"
  by (auto simp: curl_easy_send_def called_def split: list.splits response.splits)

lemma sint_uint_or_negative: "sint x = uint x \<or> sint x < 0" for x :: "'a::len word"
proof -
  obtain n where n: "LENGTH('a) = Suc n"
    by (cases "LENGTH('a)") simp_all
  have "uint x < 2 ^ Suc n"
    using uint_bounded [of x] by (simp add: n)
  then have tb: "take_bit (Suc n) (uint x) = uint x"
    by (simp add: take_bit_int_eq_self_iff)
  have "sint x = uint x - 2 ^ Suc n * of_bool (bit (uint x) n)"
    by (simp add: sint_uint n signed_take_bit_eq_take_bit_minus tb)
  with \<open>uint x < 2 ^ Suc n\<close> show ?thesis
    by (cases "bit (uint x) n") simp_all
qed

subsection \<open>Connect\<close>

text \<open>
  C1, as amended. When \<open>curl_easy_perform\<close> answers with a code other than success and
  "peer failed verification", \<open>curls_connect\<close> returns -1 and reports a network error
  carrying the error buffer. When it answers "peer failed verification" and the
  extraction of the socket then succeeds, \<open>curls_connect\<close> returns the dedicated code
  \<open>GIT_ECERTIFICATE\<close> on an encrypted stream and 0 (success) on an unencrypted one,
  reporting no error. \<open>GIT_ECERTIFICATE\<close> differs from the generic -1 and from 0.
\<close>

theorem curls_connect_outcomes:
  assumes "pending w = RPerform res eb # rest"
  shows "(res \<noteq> CURLE_OK \<and> res \<noteq> CURLE_PEER_FAILED_VERIFICATION \<longrightarrow>
            (\<exists>s' w'. curls_connect s w = Some ((-1, s'), w') \<and>
               giterr w' = Some (GITERR_NET, ''curl error: '' @ curl_error s' @ [CHR 0x0A]) \<and>
               calls w' = calls w @ [CallPerform (handle s)] \<and> pending w' = rest \<and>
               socket s' = socket s \<and> handle s' = handle s)) \<and>
         (\<forall>eb2 sockextr rest2.
            res = CURLE_PEER_FAILED_VERIFICATION \<and> rest = RGetinfo CURLE_OK eb2 sockextr # rest2 \<longrightarrow>
            (\<exists>s' w'. curls_connect s w =
                 Some ((if encrypted s \<noteq> 0 then GIT_ECERTIFICATE else 0, s'), w') \<and>
               giterr w' = giterr w \<and> pending w' = rest2)) \<and>
         GIT_ECERTIFICATE \<noteq> -1 \<and> GIT_ECERTIFICATE \<noteq> 0"
  using assms
  by (auto simp: curls_connect_def curl_easy_perform_def curl_easy_getinfo_lastsocket_def
      seterr_curl_def called_def giterr_set_def GIT_ECERTIFICATE_def Let_def)

text \<open>
  At a concrete input: a fatal code (7, could not connect) gives -1 with a network error;
  "peer failed verification" followed by a successful extraction gives
  \<open>GIT_ECERTIFICATE\<close> on the encrypted stream.
\<close>

theorem curls_connect_outcomes_witness:
  "(\<exists>s' w'. curls_connect connected_stream (world_with [RPerform (CURLE_OTHER 7) (Some ''refused'')]) =
        Some ((-1, s'), w') \<and>
      giterr w' = Some (GITERR_NET, ''curl error: refused'' @ [CHR 0x0A])) \<and>
   (\<exists>s' w'. curls_connect connected_stream
        (world_with [RPerform CURLE_PEER_FAILED_VERIFICATION None, RGetinfo CURLE_OK None 9]) =
        Some ((GIT_ECERTIFICATE, s'), w') \<and> giterr w' = None)"
proof -
  let ?w1 = "world_with [RPerform (CURLE_OTHER 7) (Some ''refused'')]"
  let ?w2 = "world_with [RPerform CURLE_PEER_FAILED_VERIFICATION None, RGetinfo CURLE_OK None 9]"
  have p1: "pending ?w1 = RPerform (CURLE_OTHER 7) (Some ''refused'') # []"
    by (simp add: world_with_def)
  have p2: "pending ?w2 =
      RPerform CURLE_PEER_FAILED_VERIFICATION None # [RGetinfo CURLE_OK None 9]"
    by (simp add: world_with_def)
  from curls_connect_outcomes [OF p1, of connected_stream]
  obtain s' w' where a: "curls_connect connected_stream ?w1 = Some ((-1, s'), w')"
    and b: "giterr w' = Some (GITERR_NET, ''curl error: '' @ curl_error s' @ [CHR 0x0A])"
    by auto
  from a have "curl_error s' = ''refused''"
    by (auto simp: curls_connect_def curl_easy_perform_def world_with_def seterr_curl_def
        errbuf_written_def called_def Let_def)
  with a b have first: "\<exists>s' w'. curls_connect connected_stream ?w1 = Some ((-1, s'), w') \<and>
      giterr w' = Some (GITERR_NET, ''curl error: refused'' @ [CHR 0x0A])"
    by auto
  from curls_connect_outcomes [OF p2, of connected_stream]
  have "\<exists>s' w'. curls_connect connected_stream ?w2 =
      Some ((if encrypted connected_stream \<noteq> 0 then GIT_ECERTIFICATE else 0, s'), w') \<and>
      giterr w' = giterr ?w2 \<and> pending w' = []"
    by blast
  then have second: "\<exists>s' w'. curls_connect connected_stream ?w2 =
      Some ((GIT_ECERTIFICATE, s'), w') \<and> giterr w' = None"
    by (auto simp: connected_stream_def world_with_def)
  from first second show ?thesis by blast
qed

text \<open>
  The claim as first stated fails when the extraction of the socket fails: after
  "peer failed verification" the encrypted stream gets the generic -1 with a network
  error, not \<open>GIT_ECERTIFICATE\<close>, and the unencrypted stream gets -1, not success.
\<close>

theorem curls_connect_cert_failure_counterexample:
  "curls_connect connected_stream
     (world_with [RPerform CURLE_PEER_FAILED_VERIFICATION None, RGetinfo (CURLE_OTHER 43) None 0]) =
     Some ((-1, connected_stream),
       \<lparr>giterr = Some (GITERR_NET, ''curl error: '' @ [CHR 0x0A]),
        calls = [CallPerform (Some 1), CallGetinfoLastSocket (Some 1)], pending = []\<rparr>) \<and>
   encrypted connected_stream \<noteq> 0 \<and> GIT_ECERTIFICATE \<noteq> -1 \<and>
   curls_connect (connected_stream\<lparr>encrypted := 0\<rparr>)
     (world_with [RPerform CURLE_PEER_FAILED_VERIFICATION None, RGetinfo (CURLE_OTHER 43) None 0]) =
     Some ((-1, connected_stream\<lparr>encrypted := 0\<rparr>),
       \<lparr>giterr = Some (GITERR_NET, ''curl error: '' @ [CHR 0x0A]),
        calls = [CallPerform (Some 1), CallGetinfoLastSocket (Some 1)], pending = []\<rparr>)"
  by (simp add: curls_connect_def curl_easy_perform_def curl_easy_getinfo_lastsocket_def
      seterr_curl_def called_def giterr_set_def Let_def connected_stream_def world_with_def
      GIT_ECERTIFICATE_def)

text \<open>
  C8. When \<open>curl_easy_perform\<close> answers success or "peer failed verification",
  \<open>curls_connect\<close> goes on to extract the socket from the handle. If the extraction
  succeeds, the descriptor (the \<open>long\<close> converted to \<open>curl_socket_t\<close>) is in the stream
  when \<open>curls_connect\<close> returns, whether it returns 0 or \<open>GIT_ECERTIFICATE\<close>. If the
  extraction fails, \<open>curls_connect\<close> returns -1 with a network error, also when the only
  earlier problem was the failed verification.
\<close>

theorem curls_connect_stores_socket:
  assumes "pending w = RPerform res eb # RGetinfo res2 eb2 sockextr # rest"
    and "res = CURLE_OK \<or> res = CURLE_PEER_FAILED_VERIFICATION"
  shows "\<exists>r s' w'. curls_connect s w = Some ((r, s'), w') \<and>
           calls w' = calls w @ [CallPerform (handle s), CallGetinfoLastSocket (handle s)] \<and>
           pending w' = rest \<and>
           (res2 = CURLE_OK \<longrightarrow>
              socket s' = ucast sockextr \<and> giterr w' = giterr w \<and>
              r = (if encrypted s \<noteq> 0 \<and> res = CURLE_PEER_FAILED_VERIFICATION
                   then GIT_ECERTIFICATE else 0)) \<and>
           (res2 \<noteq> CURLE_OK \<longrightarrow>
              r = -1 \<and> socket s' = socket s \<and>
              giterr w' = Some (GITERR_NET, ''curl error: '' @ curl_error s' @ [CHR 0x0A]))"
  using assms
  by (auto simp: curls_connect_def curl_easy_perform_def curl_easy_getinfo_lastsocket_def
      seterr_curl_def called_def giterr_set_def Let_def)

theorem curls_connect_stores_socket_witness:
  "(\<exists>s' w'. curls_connect connected_stream
        (world_with [RPerform CURLE_PEER_FAILED_VERIFICATION None, RGetinfo CURLE_OK None 9]) =
        Some ((GIT_ECERTIFICATE, s'), w') \<and> socket s' = 9) \<and>
   (\<exists>s' w'. curls_connect connected_stream
        (world_with [RPerform CURLE_PEER_FAILED_VERIFICATION None, RGetinfo (CURLE_OTHER 43) None 9]) =
        Some ((-1, s'), w') \<and> socket s' = 5 \<and>
      giterr w' = Some (GITERR_NET, ''curl error: '' @ curl_error s' @ [CHR 0x0A]))"
  using curls_connect_stores_socket
      [of "world_with [RPerform CURLE_PEER_FAILED_VERIFICATION None, RGetinfo CURLE_OK None 9]"
        CURLE_PEER_FAILED_VERIFICATION None CURLE_OK None 9 "[]" connected_stream]
    curls_connect_stores_socket
      [of "world_with [RPerform CURLE_PEER_FAILED_VERIFICATION None, RGetinfo (CURLE_OTHER 43) None 9]"
        CURLE_PEER_FAILED_VERIFICATION None "CURLE_OTHER 43" None 9 "[]" connected_stream]
  by (auto simp: world_with_def connected_stream_def)

subsection \<open>Certificate\<close>

text \<open>
  C4. \<open>curls_certificate\<close> returns 0 for every stream, so also for the stream a connect
  attempt with a failed peer verification leaves behind, and the record it hands out is
  tagged X.509 with a null data pointer and length 0.
\<close>

theorem curls_certificate_succeeds:
  "curls_certificate s =
     (0, \<lparr>cert_type = GIT_CERT_X509, cert_data = None, cert_len = 0\<rparr>,
      s\<lparr>cert_info := \<lparr>cert_type = GIT_CERT_X509, cert_data = None, cert_len = 0\<rparr>\<rparr>)"
  by (simp add: curls_certificate_def)

subsection \<open>The readiness wait\<close>

text \<open>
  C9. Every round of the read loop and of the write loop starts with \<open>wait_for\<close>, in
  some state of the loop (stream, offset, world). If the \<open>select\<close> of that round
  fails, the loop and with it \<open>curls_read\<close> or \<open>curls_write\<close> returns -1 at once,
  with an OS error reported; the only call made is the \<open>select\<close>, so no send or
  receive is attempted.
\<close>

theorem wait_failure_is_fatal:
  assumes "pending w = RSelect ret # rest" and "ret < 0"
  shows "curls_read_loop s len w =
           Some ((Inl (-1), s),
             w\<lparr>giterr := Some (GITERR_OS, ''error in select''),
               calls := calls w @ [CallSelect (socket s + 1) [socket s] [] [socket s]],
               pending := rest\<rparr>) \<and>
         curls_read s len w =
           Some ((-1, s),
             w\<lparr>giterr := Some (GITERR_OS, ''error in select''),
               calls := calls w @ [CallSelect (socket s + 1) [socket s] [] [socket s]],
               pending := rest\<rparr>) \<and>
         curls_write_loop s len off w =
           Some ((Inl (-1), s),
             w\<lparr>giterr := Some (GITERR_OS, ''error in select''),
               calls := calls w @ [CallSelect (socket s + 1) [] [socket s] [socket s]],
               pending := rest\<rparr>) \<and>
         curls_write s data len flags w =
           Some ((-1, s),
             w\<lparr>giterr := Some (GITERR_OS, ''error in select''),
               calls := calls w @ [CallSelect (socket s + 1) [] [socket s] [socket s]],
               pending := rest\<rparr>)"
  using assms
  by (simp add: curls_read_def curls_write_def curls_read_loop.simps curls_write_loop.simps
      wait_for_answer)

theorem wait_failure_is_fatal_witness:
  "curls_read connected_stream 8 (world_with [RSelect (-1)]) =
     Some ((-1, connected_stream),
       \<lparr>giterr = Some (GITERR_OS, ''error in select''),
        calls = [CallSelect 6 [5] [] [5]], pending = []\<rparr>) \<and>
   curls_write connected_stream [1, 2, 3] 3 0 (world_with [RSelect (-1)]) =
     Some ((-1, connected_stream),
       \<lparr>giterr = Some (GITERR_OS, ''error in select''),
        calls = [CallSelect 6 [] [5] [5]], pending = []\<rparr>)"
  using wait_failure_is_fatal [of "world_with [RSelect (-1)]" "-1" "[]" connected_stream 8 0 "[1, 2, 3]" 0]
    wait_failure_is_fatal [of "world_with [RSelect (-1)]" "-1" "[]" connected_stream 3 0 "[1, 2, 3]" 0]
  by (simp add: world_with_def connected_stream_def)

subsection \<open>Write\<close>

text \<open>
  The write loop reports an error of its own only for a failed wait; otherwise it leaves
  the last error untouched.
\<close>

lemma curls_write_loop_result:
  "curls_write_loop s len off w = Some ((x, s'), w') \<Longrightarrow>
     (case x of
        Inl e \<Rightarrow> e = -1 \<and> giterr w' = Some (GITERR_OS, ''error in select'')
      | Inr res \<Rightarrow> giterr w' = giterr w)"
proof (induction s len off w rule: curls_write_loop.induct)
  case (1 s len off w)
  from "1.prems" obtain e w1 where wf: "wait_for (socket s) False w = Some (e, w1)"
    by (subst (asm) curls_write_loop.simps) (auto split: option.splits)
  show ?case
  proof (cases "e < 0")
    case True
    with wf "1.prems" have "x = Inl e" "w' = w1"
      by (subst (asm) curls_write_loop.simps, simp)+
    with wait_for_SomeD [OF wf] True show ?thesis by auto
  next
    case False
    with wait_for_SomeD [OF wf] have g1: "giterr w1 = giterr w" by auto
    from "1.prems" wf False obtain res eb sent w2
      where snd: "curl_easy_send (handle s) off (len - off) w1 = Some ((res, eb, sent), w2)"
      by (subst (asm) curls_write_loop.simps) (auto split: option.splits)
    from curl_easy_send_giterr [OF snd] g1 have g2: "giterr w2 = giterr w" by simp
    let ?off1 = "if res = CURLE_OK then off + sent else off"
    show ?thesis
    proof (cases "(res = CURLE_OK \<or> res = CURLE_AGAIN) \<and> ?off1 < len")
      case True
      with "1.prems" wf False snd
      have rec: "curls_write_loop (errbuf_written eb s) len ?off1 w2 = Some ((x, s'), w')"
        by (subst (asm) curls_write_loop.simps) (simp add: Let_def)
      have "case x of
              Inl e \<Rightarrow> e = -1 \<and> giterr w' = Some (GITERR_OS, ''error in select'')
            | Inr res \<Rightarrow> giterr w' = giterr w2"
        by (rule "1.IH" [OF wf refl False snd refl refl refl refl refl True rec])
      with g2 show ?thesis by (simp split: sum.splits)
    next
      case stop: False
      with "1.prems" wf False snd have "x = Inr res" "w' = w2"
        by (subst (asm) curls_write_loop.simps, auto simp: Let_def)+
      with g2 show ?thesis by simp
    qed
  qed
qed

text \<open>
  While the bytes accepted so far stay below \<open>len\<close>, the loop goes on: it consumes
  the answers of these rounds, makes exactly the calls \<open>write_calls\<close> lists and
  arrives at the next round with the offset moved on by the bytes accepted.
\<close>

lemma write_calls_errbuf [simp]:
  "write_calls (errbuf_written e s) len off rs = write_calls s len off rs"
  by (induction s len off rs rule: write_calls.induct) simp_all

lemma curls_write_loop_continue:
  assumes "pending w = write_rounds rs @ tail"
    and "\<forall>(r, e, c) \<in> set rs. 0 \<le> r"
    and "rs = [] \<or> unat off + accepted rs < unat len"
  shows "\<exists>s' w'. curls_write_loop s len off w =
             curls_write_loop s' len (off + of_nat (accepted rs)) w' \<and>
           pending w' = tail \<and> giterr w' = giterr w \<and>
           calls w' = calls w @ write_calls s len off rs \<and>
           handle s' = handle s \<and> socket s' = socket s"
  using assms
proof (induction rs arbitrary: s w off)
  case Nil
  then show ?case by auto
next
  case (Cons x rs)
  obtain r e c where x: "x = (r, e, c)" by (cases x)
  from Cons.prems(2) x have r: "0 \<le> r" by simp
  from Cons.prems(3) have bound: "unat off + accepted (x # rs) < unat len" by simp
  let ?w2 = "w\<lparr>calls := calls w @ [CallSelect (socket s + 1) [] [socket s] [socket s],
               CallSend (handle s) off (len - off)],
             pending := write_rounds rs @ tail\<rparr>"
  have p2: "pending ?w2 = write_rounds rs @ tail" by simp
  show ?case
  proof (cases c)
    case None
    from bound have lt: "off < len"
      by (simp add: word_less_nat_alt)
    from Cons.prems(1) x None r lt have step:
      "curls_write_loop s len off w = curls_write_loop (errbuf_written e s) len off ?w2"
      by (subst curls_write_loop.simps)
        (simp add: wait_for_answer curl_easy_send_def called_def Let_def)
    from bound x None have b2: "rs = [] \<or> unat off + accepted rs < unat len" by simp
    from Cons.IH [OF p2 _ b2, of "errbuf_written e s"] Cons.prems(2) x None
    show ?thesis unfolding step by auto
  next
    case (Some n)
    from bound x Some have sum: "unat off + unat n + accepted rs < unat len" by simp
    have "unat len < 2 ^ LENGTH(64)" by (rule unsigned_less)
    with sum have "unat off + unat n < 2 ^ LENGTH(64)" by linarith
    then have un: "unat (off + n) = unat off + unat n"
      by (rule unat_add_lem [THEN iffD1])
    with sum have lt: "off + n < len"
      by (simp add: word_less_nat_alt)
    from Cons.prems(1) x Some r lt have step:
      "curls_write_loop s len off w = curls_write_loop (errbuf_written e s) len (off + n) ?w2"
      by (subst curls_write_loop.simps)
        (simp add: wait_for_answer curl_easy_send_def called_def Let_def)
    from sum un have b2: "rs = [] \<or> unat (off + n) + accepted rs < unat len" by simp
    from Cons.IH [OF p2 _ b2, of "errbuf_written e s"] Cons.prems(2) x Some
    show ?thesis unfolding step by (auto simp: add.assoc)
  qed
qed

lemma ssize_small: "sint x = uint x" if "uint x < 2 ^ 63" for x :: size_t
proof -
  have "- (2 ^ 63) \<le> (0::int)" by simp
  also have "0 \<le> uint x" by (rule uint_nonnegative)
  finally have "- (2 ^ 63) \<le> uint x" .
  with that show ?thesis
    by (simp add: sint_uint signed_take_bit_int_eq_self)
qed

text \<open>
  C2. Let the transport take the bytes of a write in chunks, with "would block" answers in
  between, every wait succeeding and the bytes accepted so far staying below \<open>len\<close>
  (the rounds \<open>rs\<close>); \<open>tail\<close> is what it answers after that.
  \<^item> If the next send accepts the rest, \<open>curls_write\<close> returns the requested length
    (as \<open>ssize_t\<close>; \<open>len\<close> itself for every \<open>len\<close> below \<open>2 ^ 63\<close>) and reports no
    error. It has then consumed exactly these answers and has offered, round by round,
    the bytes from the offset reached so far to the end.
  \<^item> If the next send fails with a code other than "would block", \<open>curls_write\<close> returns
    -1 with a network error.
  \<^item> If the next wait fails, \<open>curls_write\<close> returns -1 with an OS error.
  Moreover, whatever the transport answers, a \<open>curls_write\<close> that returns gives either
  the length, reporting no error, or -1 with one of these two errors: never a value
  strictly between 0 and the length, and a non-negative result is the length itself.
\<close>

theorem curls_write_full_or_error:
  assumes "pending w = write_rounds rs @ tail"
    and "\<forall>(r, e, c) \<in> set rs. 0 \<le> r"
    and "rs = [] \<or> accepted rs < unat len"
  shows "(\<forall>ret eb n rest.
            tail = RSelect ret # RSend CURLE_OK eb n # rest \<and> 0 \<le> ret \<and>
            accepted rs + unat n = unat len \<longrightarrow>
            (\<exists>s' w'. curls_write s data len flags w = Some ((sint len, s'), w') \<and>
               pending w' = rest \<and> giterr w' = giterr w \<and>
               calls w' = calls w @ write_calls s len 0 rs @
                 [CallSelect (socket s + 1) [] [socket s] [socket s],
                  CallSend (handle s) (of_nat (accepted rs)) (len - of_nat (accepted rs))])) \<and>
         (\<forall>ret res eb n rest.
            tail = RSelect ret # RSend res eb n # rest \<and> 0 \<le> ret \<and>
            res \<noteq> CURLE_OK \<and> res \<noteq> CURLE_AGAIN \<longrightarrow>
            (\<exists>s' w'. curls_write s data len flags w = Some ((-1, s'), w') \<and>
               pending w' = rest \<and>
               giterr w' = Some (GITERR_NET, ''curl error: '' @ curl_error s' @ [CHR 0x0A]) \<and>
               calls w' = calls w @ write_calls s len 0 rs @
                 [CallSelect (socket s + 1) [] [socket s] [socket s],
                  CallSend (handle s) (of_nat (accepted rs)) (len - of_nat (accepted rs))])) \<and>
         (\<forall>ret rest.
            tail = RSelect ret # rest \<and> ret < 0 \<longrightarrow>
            (\<exists>s' w'. curls_write s data len flags w = Some ((-1, s'), w') \<and>
               pending w' = rest \<and>
               giterr w' = Some (GITERR_OS, ''error in select'') \<and>
               calls w' = calls w @ write_calls s len 0 rs @
                 [CallSelect (socket s + 1) [] [socket s] [socket s]])) \<and>
         (\<forall>w0 r s' w'.
            curls_write s data len flags w0 = Some ((r, s'), w') \<longrightarrow>
            ((r = sint len \<and> giterr w' = giterr w0) \<or>
             (r = -1 \<and>
              giterr w' = Some (GITERR_NET, ''curl error: '' @ curl_error s' @ [CHR 0x0A])) \<or>
             (r = -1 \<and> giterr w' = Some (GITERR_OS, ''error in select''))) \<and>
            \<not> (0 < r \<and> r < uint len) \<and> (0 \<le> r \<longrightarrow> r = uint len)) \<and>
         (uint len < 2 ^ 63 \<longrightarrow> sint len = uint len)"
proof -
  from assms(3) have "rs = [] \<or> unat (0 :: size_t) + accepted rs < unat len" by simp
  from curls_write_loop_continue [OF assms(1,2) this, of s]
  obtain s1 w1 where
    loop: "curls_write_loop s len 0 w = curls_write_loop s1 len (of_nat (accepted rs)) w1"
    and w1: "pending w1 = tail" "giterr w1 = giterr w"
      "calls w1 = calls w @ write_calls s len 0 rs"
    and s1: "handle s1 = handle s" "socket s1 = socket s"
    by auto
  have ok: "\<exists>s' w'. curls_write s data len flags w = Some ((sint len, s'), w') \<and>
               pending w' = rest \<and> giterr w' = giterr w \<and>
               calls w' = calls w @ write_calls s len 0 rs @
                 [CallSelect (socket s + 1) [] [socket s] [socket s],
                  CallSend (handle s) (of_nat (accepted rs)) (len - of_nat (accepted rs))]"
    if t: "tail = RSelect ret # RSend CURLE_OK eb n # rest" and r: "0 \<le> ret"
      and sum: "accepted rs + unat n = unat len" for ret eb n rest
  proof -
    have "of_nat (accepted rs) + n = (of_nat (accepted rs + unat n) :: size_t)"
      by simp
    also have "\<dots> = len" by (simp only: sum) simp
    finally have full: "of_nat (accepted rs) + n = len" .
    from w1 s1 t r full show ?thesis
      unfolding curls_write_def loop
      by (subst curls_write_loop.simps)
        (simp add: wait_for_answer curl_easy_send_def called_def Let_def)
  qed
  have err: "\<exists>s' w'. curls_write s data len flags w = Some ((-1, s'), w') \<and>
               pending w' = rest \<and>
               giterr w' = Some (GITERR_NET, ''curl error: '' @ curl_error s' @ [CHR 0x0A]) \<and>
               calls w' = calls w @ write_calls s len 0 rs @
                 [CallSelect (socket s + 1) [] [socket s] [socket s],
                  CallSend (handle s) (of_nat (accepted rs)) (len - of_nat (accepted rs))]"
    if t: "tail = RSelect ret # RSend res eb n # rest" and r: "0 \<le> ret"
      and res: "res \<noteq> CURLE_OK" "res \<noteq> CURLE_AGAIN" for ret res eb n rest
    using w1 s1 t r res
    unfolding curls_write_def loop
    by (subst curls_write_loop.simps)
      (simp add: wait_for_answer curl_easy_send_def called_def Let_def seterr_curl_def
        giterr_set_def)
  have os: "\<exists>s' w'. curls_write s data len flags w = Some ((-1, s'), w') \<and>
               pending w' = rest \<and>
               giterr w' = Some (GITERR_OS, ''error in select'') \<and>
               calls w' = calls w @ write_calls s len 0 rs @
                 [CallSelect (socket s + 1) [] [socket s] [socket s]]"
    if t: "tail = RSelect ret # rest" and r: "ret < 0" for ret rest
    using w1 s1 t r
    unfolding curls_write_def loop
    by (subst curls_write_loop.simps) (simp add: wait_for_answer)
  have safe: "((r = sint len \<and> giterr w' = giterr w0) \<or>
             (r = -1 \<and>
              giterr w' = Some (GITERR_NET, ''curl error: '' @ curl_error s' @ [CHR 0x0A])) \<or>
             (r = -1 \<and> giterr w' = Some (GITERR_OS, ''error in select''))) \<and>
            \<not> (0 < r \<and> r < uint len) \<and> (0 \<le> r \<longrightarrow> r = uint len)"
    if run: "curls_write s data len flags w0 = Some ((r, s'), w')" for w0 r s' w'
  proof -
    from run obtain x wl where l: "curls_write_loop s len 0 w0 = Some ((x, s'), wl)"
      by (auto simp: curls_write_def seterr_curl_def split: option.splits sum.splits if_splits)
    note res = curls_write_loop_result [OF l]
    have "(r = sint len \<and> giterr w' = giterr w0) \<or>
          (r = -1 \<and> giterr w' = Some (GITERR_NET, ''curl error: '' @ curl_error s' @ [CHR 0x0A])) \<or>
          (r = -1 \<and> giterr w' = Some (GITERR_OS, ''error in select''))"
      using run l res
      by (auto simp: curls_write_def seterr_curl_def giterr_set_def split: sum.splits if_splits)
    with sint_uint_or_negative [of len] show ?thesis by auto
  qed
  from ok err os safe ssize_small [of len] show ?thesis
    by blast
qed

text \<open>
  At a concrete input, a write of 5 bytes: a chunk of 3, a "would block" and a chunk of 2
  give 5; a chunk of 3 and a failed send (55, send error) give -1 with a network error; a
  chunk of 3 and a failed wait give -1 with an OS error.
\<close>

theorem curls_write_full_or_error_witness:
  "(\<exists>s' w'. curls_write connected_stream [1, 2, 3, 4, 5] 5 0
        (world_with (write_rounds [(1, None, Some 3), (1, None, None)] @
           [RSelect 1, RSend CURLE_OK None 2])) = Some ((5, s'), w') \<and>
      pending w' = [] \<and> giterr w' = None \<and>
      calls w' = [CallSelect 6 [] [5] [5], CallSend (Some 1) 0 5,
                  CallSelect 6 [] [5] [5], CallSend (Some 1) 3 2,
                  CallSelect 6 [] [5] [5], CallSend (Some 1) 3 2]) \<and>
   (\<exists>s' w'. curls_write connected_stream [1, 2, 3, 4, 5] 5 0
        (world_with (write_rounds [(1, None, Some 3)] @
           [RSelect 1, RSend (CURLE_OTHER 55) (Some ''send failed'') 0])) = Some ((-1, s'), w') \<and>
      giterr w' = Some (GITERR_NET, ''curl error: '' @ curl_error s' @ [CHR 0x0A]) \<and>
      calls w' = [CallSelect 6 [] [5] [5], CallSend (Some 1) 0 5,
                  CallSelect 6 [] [5] [5], CallSend (Some 1) 3 2]) \<and>
   (\<exists>s' w'. curls_write connected_stream [1, 2, 3, 4, 5] 5 0
        (world_with (write_rounds [(1, None, Some 3)] @ [RSelect (-1)])) = Some ((-1, s'), w') \<and>
      giterr w' = Some (GITERR_OS, ''error in select'') \<and>
      calls w' = [CallSelect 6 [] [5] [5], CallSend (Some 1) 0 5, CallSelect 6 [] [5] [5]])"
proof -
  let ?s = connected_stream
  let ?d = "[1, 2, 3, 4, 5] :: 8 word list"
  let ?rs1 = "[(1, None, Some 3), (1, None, None)] :: (int \<times> string option \<times> size_t option) list"
  let ?rs2 = "[(1, None, Some 3)] :: (int \<times> string option \<times> size_t option) list"
  let ?t1 = "[RSelect 1, RSend CURLE_OK None 2]"
  let ?t2 = "[RSelect 1, RSend (CURLE_OTHER 55) (Some ''send failed'') 0]"
  let ?t3 = "[RSelect (-1)]"
  have a: "\<exists>s' w'. curls_write ?s ?d 5 0 (world_with (write_rounds ?rs1 @ ?t1)) =
        Some ((5, s'), w') \<and> pending w' = [] \<and> giterr w' = None \<and>
      calls w' = [CallSelect 6 [] [5] [5], CallSend (Some 1) 0 5,
                  CallSelect 6 [] [5] [5], CallSend (Some 1) 3 2,
                  CallSelect 6 [] [5] [5], CallSend (Some 1) 3 2]"
    using curls_write_full_or_error
      [where w = "world_with (write_rounds ?rs1 @ ?t1)" and rs = ?rs1 and tail = ?t1
        and len = 5 and s = ?s and data = ?d and flags = 0]
    by (simp add: world_with_def connected_stream_def)
  have b: "\<exists>s' w'. curls_write ?s ?d 5 0 (world_with (write_rounds ?rs2 @ ?t2)) =
        Some ((-1, s'), w') \<and>
      giterr w' = Some (GITERR_NET, ''curl error: '' @ curl_error s' @ [CHR 0x0A]) \<and>
      calls w' = [CallSelect 6 [] [5] [5], CallSend (Some 1) 0 5,
                  CallSelect 6 [] [5] [5], CallSend (Some 1) 3 2]"
    using curls_write_full_or_error
      [where w = "world_with (write_rounds ?rs2 @ ?t2)" and rs = ?rs2 and tail = ?t2
        and len = 5 and s = ?s and data = ?d and flags = 0]
    by (simp add: world_with_def connected_stream_def) blast
  have c: "\<exists>s' w'. curls_write ?s ?d 5 0 (world_with (write_rounds ?rs2 @ ?t3)) =
        Some ((-1, s'), w') \<and> giterr w' = Some (GITERR_OS, ''error in select'') \<and>
      calls w' = [CallSelect 6 [] [5] [5], CallSend (Some 1) 0 5, CallSelect 6 [] [5] [5]]"
    using curls_write_full_or_error
      [where w = "world_with (write_rounds ?rs2 @ ?t3)" and rs = ?rs2 and tail = ?t3
        and len = 5 and s = ?s and data = ?d and flags = 0]
    by (simp add: world_with_def connected_stream_def) blast
  from a b c show ?thesis by blast
qed

text \<open>
  C10. The \<open>flags\<close> argument of \<open>curls_write\<close> is not used: two calls that differ only
  in it return the same value and leave the same stream and the same world.
\<close>

theorem curls_write_ignores_flags:
  "curls_write s data len flags1 w = curls_write s data len flags2 w"
  by (simp add: curls_write_def)

subsection \<open>Read\<close>

lemma curl_easy_recv_giterr:
  "curl_easy_recv h n w = Some (x, w') \<Longrightarrow> giterr w' = giterr w"
  by (auto simp: curl_easy_recv_def called_def split: list.splits response.splits)

lemma curls_read_loop_rounds:
  assumes "pending w = read_again_rounds rs @ RSelect ret # RRecv res eb got # rest"
    and "\<forall>(r, e, n) \<in> set rs. 0 \<le> r" and "0 \<le> ret" and "res \<noteq> CURLE_AGAIN"
  shows "\<exists>s' w'. curls_read_loop s len w = Some ((Inr (res, got), s'), w') \<and>
           pending w' = rest \<and> giterr w' = giterr w \<and>
           calls w' = calls w @ concat (replicate (Suc (length rs))
             [CallSelect (socket s + 1) [socket s] [] [socket s], CallRecv (handle s) len]) \<and>
           handle s' = handle s \<and> socket s' = socket s \<and> encrypted s' = encrypted s \<and>
           cert_info s' = cert_info s \<and>
           curl_error s' = curl_error (fold errbuf_written (map (\<lambda>(r, e, n). e) rs @ [eb]) s)"
  using assms
proof (induction rs arbitrary: s w)
  case Nil
  then show ?case
    by (subst curls_read_loop.simps)
      (simp add: wait_for_answer curl_easy_recv_def called_def Let_def)
next
  case (Cons x rs)
  obtain r e n where x: "x = (r, e, n)" by (cases x)
  let ?w2 = "w\<lparr>calls := calls w @ [CallSelect (socket s + 1) [socket s] [] [socket s],
                 CallRecv (handle s) len],
               pending := read_again_rounds rs @ RSelect ret # RRecv res eb got # rest\<rparr>"
  from Cons.prems x have step:
    "curls_read_loop s len w = curls_read_loop (errbuf_written e s) len ?w2"
    by (subst curls_read_loop.simps)
      (simp add: wait_for_answer curl_easy_recv_def called_def Let_def)
  have "pending ?w2 = read_again_rounds rs @ RSelect ret # RRecv res eb got # rest"
    by simp
  from Cons.IH [OF this _ Cons.prems(3,4), of "errbuf_written e s"] Cons.prems(2)
  show ?case
    unfolding step by (auto simp: x)
qed

text \<open>
  C3. As long as \<open>curl_easy_recv\<close> answers "would block", \<open>curls_read\<close> waits and
  receives again without returning. The first other answer ends the call: a success with
  \<open>got\<close> bytes returns \<open>got\<close> (converted to \<open>ssize_t\<close>; the count itself whenever it
  is below \<open>2 ^ 63\<close>), be it short or zero, and reports no error; any other code returns
  -1 with a network error. The calls made are exactly one \<open>select\<close> and one receive per
  round.
\<close>

theorem curls_read_retries_until_answer:
  assumes "pending w = read_again_rounds rs @ RSelect ret # RRecv res eb got # rest"
    and "\<forall>(r, e, n) \<in> set rs. 0 \<le> r" and "0 \<le> ret" and "res \<noteq> CURLE_AGAIN"
  shows "\<exists>r s' w'. curls_read s len w = Some ((r, s'), w') \<and>
           pending w' = rest \<and>
           calls w' = calls w @ concat (replicate (Suc (length rs))
             [CallSelect (socket s + 1) [socket s] [] [socket s], CallRecv (handle s) len]) \<and>
           (res = CURLE_OK \<longrightarrow>
              r = sint got \<and> giterr w' = giterr w \<and> (uint got < 2 ^ 63 \<longrightarrow> r = uint got)) \<and>
           (res \<noteq> CURLE_OK \<longrightarrow>
              r = -1 \<and>
              giterr w' = Some (GITERR_NET, ''curl error: '' @ curl_error s' @ [CHR 0x0A]))"
proof -
  from curls_read_loop_rounds [OF assms, of s len]
  obtain s' w1 where loop: "curls_read_loop s len w = Some ((Inr (res, got), s'), w1)"
    and rest: "pending w1 = rest" "giterr w1 = giterr w"
      "calls w1 = calls w @ concat (replicate (Suc (length rs))
             [CallSelect (socket s + 1) [socket s] [] [socket s], CallRecv (handle s) len])"
    by blast
  have small: "sint got = uint got" if "uint got < 2 ^ 63"
  proof -
    have "- (2 ^ 63) \<le> (0::int)" by simp
    also have "0 \<le> uint got" by (rule uint_nonnegative)
    finally have "- (2 ^ 63) \<le> uint got" .
    with that show ?thesis
      by (simp add: sint_uint signed_take_bit_int_eq_self)
  qed
  show ?thesis
  proof (cases "res = CURLE_OK")
    case True
    with loop rest small show ?thesis
      by (simp add: curls_read_def)
  next
    case False
    with loop rest show ?thesis
      by (simp add: curls_read_def seterr_curl_def giterr_set_def)
  qed
qed

theorem curls_read_retries_until_answer_witness:
  "(\<exists>s' w'. curls_read connected_stream 8
        (world_with (read_again_rounds [(1, None, 0), (1, None, 0)] @
           [RSelect 1, RRecv CURLE_OK None 3])) = Some ((3, s'), w') \<and> giterr w' = None) \<and>
   (\<exists>s' w'. curls_read connected_stream 8
        (world_with (read_again_rounds [] @ [RSelect 1, RRecv CURLE_OK None 0])) =
        Some ((0, s'), w') \<and> giterr w' = None) \<and>
   (\<exists>s' w'. curls_read connected_stream 8
        (world_with (read_again_rounds [(1, None, 0)] @
           [RSelect 1, RRecv (CURLE_OTHER 56) (Some ''reset'') 0])) = Some ((-1, s'), w') \<and>
      giterr w' = Some (GITERR_NET, ''curl error: '' @ curl_error s' @ [CHR 0x0A]))"
proof -
  have a: "\<exists>s' w'. curls_read connected_stream 8
        (world_with (read_again_rounds [(1, None, 0), (1, None, 0)] @
           [RSelect 1, RRecv CURLE_OK None 3])) = Some ((3, s'), w') \<and> giterr w' = None"
    using curls_read_retries_until_answer
      [of "world_with (read_again_rounds [(1, None, 0), (1, None, 0)] @
             [RSelect 1, RRecv CURLE_OK None 3])"
          "[(1, None, 0), (1, None, 0)]" 1 CURLE_OK None 3 "[]" connected_stream 8]
    by (auto simp: world_with_def)
  have b: "\<exists>s' w'. curls_read connected_stream 8
        (world_with (read_again_rounds [] @ [RSelect 1, RRecv CURLE_OK None 0])) =
        Some ((0, s'), w') \<and> giterr w' = None"
    using curls_read_retries_until_answer
      [of "world_with (read_again_rounds [] @ [RSelect 1, RRecv CURLE_OK None 0])"
          "[]" 1 CURLE_OK None 0 "[]" connected_stream 8]
    by (auto simp: world_with_def)
  have c: "\<exists>s' w'. curls_read connected_stream 8
        (world_with (read_again_rounds [(1, None, 0)] @
           [RSelect 1, RRecv (CURLE_OTHER 56) (Some ''reset'') 0])) = Some ((-1, s'), w') \<and>
      giterr w' = Some (GITERR_NET, ''curl error: '' @ curl_error s' @ [CHR 0x0A])"
    using curls_read_retries_until_answer
      [of "world_with (read_again_rounds [(1, None, 0)] @
             [RSelect 1, RRecv (CURLE_OTHER 56) (Some ''reset'') 0])"
          "[(1, None, 0)]" 1 "CURLE_OTHER 56" "Some ''reset''" 0 "[]" connected_stream 8]
    by (auto simp: world_with_def)
  from a b c show ?thesis by blast
qed

subsection \<open>Close\<close>

text \<open>
  C5. \<open>curls_close\<close> on a stream whose handle is null returns 0 and changes neither the
  stream nor the world. On a stream with a handle it releases the handle, sets it to null
  and resets the descriptor to 0. Hence a second close after any close returns 0 and
  changes nothing.
\<close>

theorem curls_close_idempotent:
  "(handle s = None \<longrightarrow> curls_close s w = ((0, s), w)) \<and>
   (\<forall>h. handle s = Some h \<longrightarrow>
      curls_close s w =
        ((0, s\<lparr>handle := None, socket := 0\<rparr>), w\<lparr>calls := calls w @ [CallCleanup (Some h)]\<rparr>)) \<and>
   (case curls_close s w of
      ((r1, s1), w1) \<Rightarrow> r1 = 0 \<and> handle s1 = None \<and> curls_close s1 w1 = ((0, s1), w1))"
  by (auto simp: curls_close_def curl_easy_cleanup_def Let_def)

theorem curls_close_idempotent_witness:
  "curls_close closed_stream (world_with []) = ((0, closed_stream), world_with []) \<and>
   curls_close connected_stream (world_with []) =
     ((0, closed_stream), \<lparr>giterr = None, calls = [CallCleanup (Some 1)], pending = []\<rparr>)"
  using curls_close_idempotent [of closed_stream "world_with []"]
    curls_close_idempotent [of connected_stream "world_with []"]
  by (simp add: closed_stream_def connected_stream_def world_with_def)

subsection \<open>Read and write after close\<close>

text \<open>
  C7 does not hold of the code. \<open>curls_close\<close> tests the handle, \<open>curls_read\<close> and
  \<open>curls_write\<close> do not: on the closed example stream (handle null, descriptor 0) they
  return no error of their own. With no answer from the outside they are still waiting in
  \<open>select\<close> on descriptor 0; once that wait has returned 0 they have gone on to
  \<open>curl_easy_recv\<close> or \<open>curl_easy_send\<close> with the null handle, and have not returned
  as long as that call has not.
\<close>

theorem closed_stream_io_not_rejected:
  "handle closed_stream = None \<and> socket closed_stream = 0 \<and>
   curls_read closed_stream 8 (world_with []) = None \<and>
   curls_write closed_stream [1, 2, 3] 3 0 (world_with []) = None \<and>
   wait_for (socket closed_stream) True (world_with [RSelect 1]) =
     Some (0, \<lparr>giterr = None, calls = [CallSelect 1 [0] [] [0]], pending = []\<rparr>) \<and>
   curls_read closed_stream 8 (world_with [RSelect 1]) = None \<and>
   wait_for (socket closed_stream) False (world_with [RSelect 1]) =
     Some (0, \<lparr>giterr = None, calls = [CallSelect 1 [] [0] [0]], pending = []\<rparr>) \<and>
   curls_write closed_stream [1, 2, 3] 3 0 (world_with [RSelect 1]) = None"
  by (simp add: curls_read_def curls_write_def curls_read_loop.simps curls_write_loop.simps
      wait_for_def select_fds_def curl_easy_recv_def curl_easy_send_def called_def Let_def
      closed_stream_def connected_stream_def world_with_def)

subsection \<open>The factory\<close>

text \<open>
  C6, as amended. When allocation and handle creation succeed and the parser rejects the
  port, \<open>git_curl_stream_new\<close> returns the parser's error code, stores no stream in
  \<open>*out\<close>, reports no error of its own and sets no option on the handle. The handle has
  been created by then: \<open>curl_easy_init\<close> is called before the port is parsed.
\<close>

theorem git_curl_stream_new_malformed_port:
  assumes "pending w = RCalloc True # REasyInit (Some h) # rest"
    and "fst (git__strtol32 port) < 0"
  shows "\<exists>w' cs. git_curl_stream_new git__strtol32 host port encrypted_flag w =
             Some ((fst (git__strtol32 port), None), w') \<and>
           giterr w' = giterr w \<and> pending w' = rest \<and>
           calls w' = calls w @ cs \<and> CallEasyInit \<in> set cs \<and>
           (\<forall>h' opt. CallSetopt h' opt \<notin> set cs)"
  using assms
  by (auto simp: git_curl_stream_new_def git__calloc_def curl_easy_init_def called_def
      split: prod.splits)

theorem git_curl_stream_new_malformed_port_witness:
  "\<exists>w' cs. git_curl_stream_new strtol32_base10 ''example.org'' ''abc'' 1
       (world_with [RCalloc True, REasyInit (Some 1)]) = Some ((-1, None), w') \<and>
     giterr w' = None \<and> calls w' = cs \<and> CallEasyInit \<in> set cs"
proof -
  have p: "pending (world_with [RCalloc True, REasyInit (Some 1)]) =
      RCalloc True # REasyInit (Some 1) # []"
    by (simp add: world_with_def)
  have m: "fst (strtol32_base10 ''abc'') < 0"
    by (simp add: strtol32_base10_def)
  from git_curl_stream_new_malformed_port
    [of "world_with [RCalloc True, REasyInit (Some 1)]" 1 "[]" strtol32_base10 "''abc''"
      "''example.org''" 1, OF p m]
  show ?thesis
    by (auto simp: world_with_def strtol32_base10_def)
qed

text \<open>
  The claim as first stated fails: for the port \<open>abc\<close> the factory has already created
  the transport handle when it returns the parse error; and when the creation of the
  handle fails, the same call fails with a network error, not a parse error.
\<close>

theorem git_curl_stream_new_port_counterexample:
  "git_curl_stream_new strtol32_base10 ''example.org'' ''abc'' 1
     (world_with [RCalloc True, REasyInit (Some 1)]) =
     Some ((-1, None), \<lparr>giterr = None, calls = [CallCalloc, CallEasyInit], pending = []\<rparr>) \<and>
   git_curl_stream_new strtol32_base10 ''example.org'' ''abc'' 1
     (world_with [RCalloc True, REasyInit None]) =
     Some ((-1, None),
       \<lparr>giterr = Some (GITERR_NET, ''failed to create curl handle''),
        calls = [CallCalloc, CallEasyInit], pending = []\<rparr>)"
  by (simp add: git_curl_stream_new_def git__calloc_def curl_easy_init_def called_def
      world_with_def strtol32_base10_def giterr_set_def)

end
